theory Spec2Isabelle
  imports Main
begin

section \<open>Module resolution policy of the Rollup build (scripts/rollup/modules.js)\<close>

text \<open>
  The file computes, per bundle type and module type, the alias table, the list of
  external modules and the table of textual replacements handed to Rollup. JavaScript
  objects used as tables are maps from property name to value, arrays are lists, and
  the value \<^verbatim>\<open>undefined\<close> that a \<^verbatim>\<open>switch\<close> without a matching case
  returns is a value of its own.
\<close>

subsection \<open>Bundle types and module types\<close>

text \<open>
  Modelled from the spec: \<^verbatim>\<open>bundleTypes\<close> and \<^verbatim>\<open>moduleTypes\<close> are imported from
  \<^verbatim>\<open>./bundles\<close>, which is not among the sources. The spec gives eight bundle variants
  (four formats, two optimisation levels) and two module roles; they are taken to be
  pairwise distinct constants. The comparisons of the code are strict equalities, so a
  value that is none of the constants is kept as a constructor of its own: it is what
  reaches the end of a \<^verbatim>\<open>switch\<close> with no matching \<^verbatim>\<open>case\<close>.
\<close>

datatype bundleType =
  UMD_DEV | UMD_PROD | NODE_DEV | NODE_PROD | FB_DEV | FB_PROD | RN_DEV | RN_PROD
  | UnknownBundle string

datatype moduleType = ISOMORPHIC | RENDERER | UnknownModule string

type_synonym table = "string \<rightharpoonup> string"

text \<open>What a function returns whose \<^verbatim>\<open>switch\<close> may match no case.\<close>

datatype returned = Undefined | Object table

subsection \<open>The path library\<close>

text \<open>
  \<^verbatim>\<open>path.resolve(p)\<close> of Node on a POSIX system, for one argument: a relative path is
  joined to the working directory \<open>cwd\<close> (absolute, as \<^verbatim>\<open>process.cwd()\<close> is), then empty
  and \<^verbatim>\<open>.\<close> segments are dropped, a \<^verbatim>\<open>..\<close> segment removes the segment before it
  (none at the root), and the result has a leading and no trailing slash.
\<close>

fun split_on :: "char \<Rightarrow> string \<Rightarrow> string list" where
  "split_on c [] = [[]]"
| "split_on c (x # xs) =
     (if x = c then [] # split_on c xs
      else (case split_on c xs of [] \<Rightarrow> [[x]] | s # ss \<Rightarrow> (x # s) # ss))"

fun normalize_segment :: "string list \<Rightarrow> string \<Rightarrow> string list" where
  "normalize_segment stack seg =
     (if seg = [] then stack
      else if seg = ''.'' then stack
      else if seg = ''..'' then butlast stack
      else stack @ [seg])"

fun isAbsolute :: "string \<Rightarrow> bool" where
  "isAbsolute [] = False"
| "isAbsolute (c # cs) = (c = CHR ''/'')"

fun join_segments :: "string list \<Rightarrow> string" where
  "join_segments [] = []"
| "join_segments (s # ss) = CHR ''/'' # s @ join_segments ss"

definition resolve :: "string \<Rightarrow> string \<Rightarrow> string" where
  "resolve cwd path =
     (let full = (if isAbsolute path then path else cwd @ ''/'' @ path);
          segs = foldl normalize_segment [] (split_on CHR ''/'' full)
      in if segs = [] then ''/'' else join_segments segs)"

text \<open>The segments of the working directory, once normalised.\<close>

definition cwdSegments :: "string \<Rightarrow> string list" where
  "cwdSegments cwd = foldl normalize_segment [] (split_on CHR ''/'' cwd)"

text \<open>The template literal \<^verbatim>\<open>`'${s}'`\<close>: the text between two single quotes.\<close>

definition quoted :: "string \<Rightarrow> string" where
  "quoted s = CHR 0x27 # s @ [CHR 0x27]"

subsection \<open>The fixed tables\<close>

definition exclude :: "string list" where
  "exclude = [''**/__benchmarks__/**/*.js'', ''**/__tests__/**/*.js'', ''**/__mocks__/**/*.js'']"

definition errorMapFilePath :: string where
  "errorMapFilePath = ''scripts/error-codes/codes.json''"

definition fbjsModules :: "string list" where
  "fbjsModules =
    [''fbjs/lib/warning'',
     ''fbjs/lib/invariant'',
     ''fbjs/lib/emptyFunction'',
     ''fbjs/lib/emptyObject'',
     ''fbjs/lib/hyphenateStyleName'',
     ''fbjs/lib/getUnboundedScrollPosition'',
     ''fbjs/lib/camelizeStyleName'',
     ''fbjs/lib/containsNode'',
     ''fbjs/lib/shallowEqual'',
     ''fbjs/lib/getActiveElement'',
     ''fbjs/lib/focusNode'',
     ''fbjs/lib/EventListener'',
     ''fbjs/lib/memoizeStringOnly'',
     ''fbjs/lib/ExecutionEnvironment'',
     ''fbjs/lib/createNodesFromMarkup'',
     ''fbjs/lib/performanceNow'']"

definition devOnlyFilesToStubOut :: "string list" where
  "devOnlyFilesToStubOut =
    [quoted ''ReactDebugCurrentFrame'',
     quoted ''ReactComponentTreeHook'',
     quoted ''ReactPerf'',
     quoted ''ReactTestUtils'']"

definition legacyModules :: "string list" where
  "legacyModules =
    [''create-react-class'',
     ''create-react-class/factory'',
     ''prop-types'',
     ''prop-types/checkPropTypes'']"

subsection \<open>getExternalModules\<close>

text \<open>
  \<^verbatim>\<open>externals.slice()\<close> is a copy of the caller's array; \<^verbatim>\<open>push\<close> adds one element at
  the end of the copy, and \<^verbatim>\<open>indexOf(x) > -1\<close> is membership.
\<close>

definition push :: "'a list \<Rightarrow> 'a \<Rightarrow> 'a list" where
  "push xs x = xs @ [x]"

definition pushFbjsAndAssign :: "string list \<Rightarrow> string list" where
  "pushFbjsAndAssign externalModules =
     push (foldl push externalModules fbjsModules) ''object-assign''"

definition pushReact :: "string list \<Rightarrow> moduleType \<Rightarrow> string list" where
  "pushReact externalModules moduleType =
     (if moduleType = ISOMORPHIC then externalModules else push externalModules ''react'')"

definition pushFB :: "string list \<Rightarrow> moduleType \<Rightarrow> string list" where
  "pushFB externalModules0 moduleType =
     (let externalModules1 = pushFbjsAndAssign externalModules0;
          externalModules2 = push externalModules1 ''ReactCurrentOwner'';
          externalModules3 = push externalModules2 ''lowPriorityWarning''
      in if moduleType = ISOMORPHIC then externalModules3
         else (let externalModules4 = push externalModules3 ''React''
               in if ''react-dom'' \<in> set externalModules4
                  then push externalModules4 ''ReactDOM''
                  else externalModules4))"

fun getExternalModules :: "string list \<Rightarrow> bundleType \<Rightarrow> moduleType \<Rightarrow> string list" where
  "getExternalModules externals UMD_DEV moduleType = pushReact externals moduleType"
| "getExternalModules externals UMD_PROD moduleType = pushReact externals moduleType"
| "getExternalModules externals NODE_DEV moduleType =
     pushReact (pushFbjsAndAssign externals) moduleType"
| "getExternalModules externals NODE_PROD moduleType =
     pushReact (pushFbjsAndAssign externals) moduleType"
| "getExternalModules externals RN_DEV moduleType =
     pushReact (pushFbjsAndAssign externals) moduleType"
| "getExternalModules externals RN_PROD moduleType =
     pushReact (pushFbjsAndAssign externals) moduleType"
| "getExternalModules externals FB_DEV moduleType = pushFB externals moduleType"
| "getExternalModules externals FB_PROD moduleType = pushFB externals moduleType"
| "getExternalModules externals (UnknownBundle v) moduleType = externals"

subsection \<open>Objects as tables\<close>

text \<open>
  \<^verbatim>\<open>obj[key] = value\<close> on an object created by \<^verbatim>\<open>{}\<close>. The one property name for which
  the assignment of a string creates no property is \<^verbatim>\<open>__proto__\<close>, inherited from
  \<^verbatim>\<open>Object.prototype\<close> as a setter that ignores values that are not objects.
\<close>

definition setProperty :: "table \<Rightarrow> string \<Rightarrow> string \<Rightarrow> table" where
  "setProperty obj key v = (if key = ''__proto__'' then obj else obj(key \<mapsto> v))"

text \<open>
  \<^verbatim>\<open>Object.assign(target, ...sources)\<close> with an object as target: the own properties of
  every source are copied in order, a later source overwriting an earlier one, and a
  source that is \<^verbatim>\<open>undefined\<close> is skipped.
\<close>

fun assignSource :: "table \<Rightarrow> returned \<Rightarrow> table" where
  "assignSource target Undefined = target"
| "assignSource target (Object source) = target ++ source"

definition Object_assign :: "table \<Rightarrow> returned list \<Rightarrow> table" where
  "Object_assign target sources = foldl assignSource target sources"

text \<open>The properties a source contributes to a merge: none when it is \<^verbatim>\<open>undefined\<close>.\<close>

fun ownProperties :: "returned \<Rightarrow> table" where
  "ownProperties Undefined = Map.empty"
| "ownProperties (Object source) = source"

subsection \<open>createModuleMap\<close>

text \<open>
  The scan has two collaborators outside this file: \<^verbatim>\<open>glob.sync\<close>, which lists the files
  matching a pattern and may fail, and the error-code extractor, which rewrites a
  registry file for every scanned source file and may fail too. The state of the file
  system is a value of type \<open>'w\<close> passed through the scan; an exception of a collaborator
  ends the scan, and nothing is returned but the exception. \<^verbatim>\<open>path.basename\<close> is taken
  as a parameter as well: no property below depends on how it computes the module name.
\<close>

datatype error = Thrown string

type_synonym 'w hook = "string \<Rightarrow> 'w \<Rightarrow> error + 'w"

record 'w collaborators =
  sync :: "'w \<Rightarrow> string \<Rightarrow> string list \<Rightarrow> error + string list"
  basename :: "string \<Rightarrow> string \<Rightarrow> string"
  extractErrorCodes :: "string \<Rightarrow> 'w hook"

fun callHook :: "'w hook option \<Rightarrow> string \<Rightarrow> 'w \<Rightarrow> error + 'w" where
  "callHook None file w = Inr w"
| "callHook (Some extractErrors) file w = extractErrors file w"

fun forEachFile ::
  "'w collaborators \<Rightarrow> string \<Rightarrow> 'w hook option \<Rightarrow> string list \<Rightarrow> table \<times> 'w
     \<Rightarrow> error + table \<times> 'w" where
  "forEachFile c cwd extractErrors [] (moduleMap, w) = Inr (moduleMap, w)"
| "forEachFile c cwd extractErrors (file # files) (moduleMap, w) =
     (case callHook extractErrors file w of
        Inl e \<Rightarrow> Inl e
      | Inr w' \<Rightarrow>
          (let moduleName = basename c file ''.js''
           in forEachFile c cwd extractErrors files
                (setProperty moduleMap moduleName (resolve cwd file), w')))"

fun forEachPath ::
  "'w collaborators \<Rightarrow> string \<Rightarrow> 'w hook option \<Rightarrow> string list \<Rightarrow> table \<times> 'w
     \<Rightarrow> error + table \<times> 'w" where
  "forEachPath c cwd extractErrors [] (moduleMap, w) = Inr (moduleMap, w)"
| "forEachPath c cwd extractErrors (path # paths) (moduleMap, w) =
     (case sync c w path exclude of
        Inl e \<Rightarrow> Inl e
      | Inr files \<Rightarrow>
          (case forEachFile c cwd extractErrors files (moduleMap, w) of
             Inl e \<Rightarrow> Inl e
           | Inr st \<Rightarrow> forEachPath c cwd extractErrors paths st))"

fun isFB :: "bundleType \<Rightarrow> bool" where
  "isFB FB_DEV = True"
| "isFB FB_PROD = True"
| "isFB _ = False"

definition deleteProperty :: "table \<Rightarrow> string \<Rightarrow> table" where
  "deleteProperty obj key = obj(key := None)"

definition createModuleMap ::
  "'w collaborators \<Rightarrow> string \<Rightarrow> string list \<Rightarrow> 'w hook option \<Rightarrow> bundleType \<Rightarrow> 'w
     \<Rightarrow> error + table \<times> 'w" where
  "createModuleMap c cwd paths extractErrors bundleType w =
     (case forEachPath c cwd extractErrors paths (Map.empty, w) of
        Inl e \<Rightarrow> Inl e
      | Inr (moduleMap, w') \<Rightarrow>
          Inr (if isFB bundleType
               then deleteProperty (deleteProperty moduleMap ''ReactCurrentOwner'')
                      ''lowPriorityWarning''
               else moduleMap, w'))"

subsection \<open>The alias sources\<close>

definition umdNodeModules :: "string \<Rightarrow> moduleType \<Rightarrow> table" where
  "umdNodeModules cwd moduleType =
     [''object-assign'' \<mapsto>
        (if moduleType = ISOMORPHIC
         then resolve cwd ''./node_modules/object-assign/index.js''
         else resolve cwd ''./scripts/rollup/shims/rollup/assign.js''),
      ''art/modes/current'' \<mapsto> resolve cwd ''./node_modules/art/modes/current.js'',
      ''art/modes/fast-noSideEffects'' \<mapsto>
        resolve cwd ''./node_modules/art/modes/fast-noSideEffects.js'',
      ''art/core/transform'' \<mapsto> resolve cwd ''./node_modules/art/core/transform.js'']"

fun getNodeModules :: "string \<Rightarrow> bundleType \<Rightarrow> moduleType \<Rightarrow> returned" where
  "getNodeModules cwd UMD_DEV moduleType = Object (umdNodeModules cwd moduleType)"
| "getNodeModules cwd UMD_PROD moduleType = Object (umdNodeModules cwd moduleType)"
| "getNodeModules cwd NODE_DEV moduleType = Object Map.empty"
| "getNodeModules cwd NODE_PROD moduleType = Object Map.empty"
| "getNodeModules cwd FB_DEV moduleType = Object Map.empty"
| "getNodeModules cwd FB_PROD moduleType = Object Map.empty"
| "getNodeModules cwd RN_DEV moduleType = Object Map.empty"
| "getNodeModules cwd RN_PROD moduleType = Object Map.empty"
| "getNodeModules cwd (UnknownBundle v) moduleType = Undefined"

definition ignoreFBModules :: "string list" where
  "ignoreFBModules =
     [''React'', ''ReactDOM'', ''ReactFeatureFlags'', ''ReactCurrentOwner'',
      ''lowPriorityWarning'']"

definition ignoreReactNativeModules :: "string list" where
  "ignoreReactNativeModules = [''View'']"

definition getInternalModules :: "string \<Rightarrow> moduleType \<Rightarrow> table" where
  "getInternalModules cwd moduleType =
     (let aliases = [''reactProdInvariant'' \<mapsto> resolve cwd ''./packages/shared/reactProdInvariant.js'']
      in if moduleType = RENDERER
         then setProperty aliases ''react-reconciler''
                (resolve cwd ''./packages/react-reconciler/index.js'')
         else aliases)"

definition umdFbjsModulesAlias :: "string \<Rightarrow> table" where
  "umdFbjsModulesAlias cwd =
     foldl (\<lambda>fbjsModulesAlias fbjsModule.
              setProperty fbjsModulesAlias fbjsModule
                (resolve cwd (''./node_modules/'' @ fbjsModule)))
       Map.empty fbjsModules"

fun getFbjsModuleAliases :: "string \<Rightarrow> bundleType \<Rightarrow> returned" where
  "getFbjsModuleAliases cwd UMD_DEV = Object (umdFbjsModulesAlias cwd)"
| "getFbjsModuleAliases cwd UMD_PROD = Object (umdFbjsModulesAlias cwd)"
| "getFbjsModuleAliases cwd NODE_DEV = Object Map.empty"
| "getFbjsModuleAliases cwd NODE_PROD = Object Map.empty"
| "getFbjsModuleAliases cwd FB_DEV = Object Map.empty"
| "getFbjsModuleAliases cwd FB_PROD = Object Map.empty"
| "getFbjsModuleAliases cwd RN_DEV = Object Map.empty"
| "getFbjsModuleAliases cwd RN_PROD = Object Map.empty"
| "getFbjsModuleAliases cwd (UnknownBundle v) = Undefined"

subsection \<open>The replacement sources\<close>

fun replaceFbjsModuleAliases :: "bundleType \<Rightarrow> table" where
  "replaceFbjsModuleAliases FB_DEV =
     [quoted ''react'' \<mapsto> quoted ''React'', quoted ''react-dom'' \<mapsto> quoted ''ReactDOM'']"
| "replaceFbjsModuleAliases FB_PROD =
     [quoted ''react'' \<mapsto> quoted ''React'', quoted ''react-dom'' \<mapsto> quoted ''ReactDOM'']"
| "replaceFbjsModuleAliases _ = Map.empty"

definition devOnlyModuleStub :: "string \<Rightarrow> string" where
  "devOnlyModuleStub cwd =
     quoted (resolve cwd ''./scripts/rollup/shims/rollup/DevOnlyStubShim.js'')"

definition devOnlyModuleAliases :: "string \<Rightarrow> table" where
  "devOnlyModuleAliases cwd =
     foldl (\<lambda>aliases devOnlyModule. setProperty aliases devOnlyModule (devOnlyModuleStub cwd))
       Map.empty devOnlyFilesToStubOut"

fun replaceDevOnlyStubbedModules :: "string \<Rightarrow> bundleType \<Rightarrow> returned" where
  "replaceDevOnlyStubbedModules cwd UMD_DEV = Object Map.empty"
| "replaceDevOnlyStubbedModules cwd NODE_DEV = Object Map.empty"
| "replaceDevOnlyStubbedModules cwd FB_DEV = Object Map.empty"
| "replaceDevOnlyStubbedModules cwd RN_DEV = Object Map.empty"
| "replaceDevOnlyStubbedModules cwd RN_PROD = Object Map.empty"
| "replaceDevOnlyStubbedModules cwd FB_PROD = Object (devOnlyModuleAliases cwd)"
| "replaceDevOnlyStubbedModules cwd UMD_PROD = Object (devOnlyModuleAliases cwd)"
| "replaceDevOnlyStubbedModules cwd NODE_PROD = Object (devOnlyModuleAliases cwd)"
| "replaceDevOnlyStubbedModules cwd (UnknownBundle v) = Undefined"

definition legacyModulePath :: "string \<Rightarrow> string" where
  "legacyModulePath legacyModule =
     (if CHR ''/'' \<in> set legacyModule then legacyModule else legacyModule @ ''/index'')"

definition umdLegacyModulesAlias :: "string \<Rightarrow> table" where
  "umdLegacyModulesAlias cwd =
     foldl (\<lambda>modulesAlias legacyModule.
              (let modulePath = legacyModulePath legacyModule;
                   resolvedPath = resolve cwd (''./node_modules/'' @ modulePath)
               in setProperty modulesAlias (quoted legacyModule) (quoted resolvedPath)))
       Map.empty legacyModules"

fun replaceLegacyModuleAliases :: "string \<Rightarrow> bundleType \<Rightarrow> returned" where
  "replaceLegacyModuleAliases cwd UMD_DEV = Object (umdLegacyModulesAlias cwd)"
| "replaceLegacyModuleAliases cwd UMD_PROD = Object (umdLegacyModulesAlias cwd)"
| "replaceLegacyModuleAliases cwd NODE_DEV = Object Map.empty"
| "replaceLegacyModuleAliases cwd NODE_PROD = Object Map.empty"
| "replaceLegacyModuleAliases cwd FB_DEV = Object Map.empty"
| "replaceLegacyModuleAliases cwd FB_PROD = Object Map.empty"
| "replaceLegacyModuleAliases cwd RN_DEV = Object Map.empty"
| "replaceLegacyModuleAliases cwd RN_PROD = Object Map.empty"
| "replaceLegacyModuleAliases cwd (UnknownBundle v) = Undefined"

text \<open>
  The argument \<^verbatim>\<open>bundleModulesToStub\<close> is any JavaScript value: the function tests it with
  \<^verbatim>\<open>Array.isArray\<close>. The elements of an array are module names, that is strings.
\<close>

datatype jsValue =
  JUndefined | JNull | JBoolean bool | JNumber int | JString string | JObject table
  | JArray "string list"

fun isArray :: "jsValue \<Rightarrow> bool" where
  "isArray (JArray xs) = True"
| "isArray _ = False"

fun replaceBundleStubModules :: "string \<Rightarrow> jsValue \<Rightarrow> table" where
  "replaceBundleStubModules cwd (JArray bundleModulesToStub) =
     foldl (\<lambda>stubbedModules module.
              setProperty stubbedModules (quoted module) (devOnlyModuleStub cwd))
       Map.empty bundleModulesToStub"
| "replaceBundleStubModules cwd _ = Map.empty"

text \<open>
  \<^verbatim>\<open>featureFlags\<close> is a path or is omitted (\<open>None\<close>); the empty string is falsy like
  \<^verbatim>\<open>undefined\<close>.
\<close>

fun replaceFeatureFlags :: "string \<Rightarrow> string option \<Rightarrow> table" where
  "replaceFeatureFlags cwd None = Map.empty"
| "replaceFeatureFlags cwd (Some featureFlags) =
     (if featureFlags = [] then Map.empty
      else [quoted ''ReactFeatureFlags'' \<mapsto> quoted (resolve cwd featureFlags)])"

subsection \<open>The two merged tables\<close>

text \<open>
  \<^verbatim>\<open>extractErrors && extractErrorCodes(errorCodeOpts)\<close>: the hook when the flag is set,
  a falsy value that \<^verbatim>\<open>createModuleMap\<close> does not call otherwise.
\<close>

definition getAliases ::
  "'w collaborators \<Rightarrow> string \<Rightarrow> string list \<Rightarrow> bundleType \<Rightarrow> moduleType \<Rightarrow> bool \<Rightarrow> 'w
     \<Rightarrow> error + table \<times> 'w" where
  "getAliases c cwd paths bundleType moduleType extractErrors w =
     (case createModuleMap c cwd paths
             (if extractErrors then Some (extractErrorCodes c errorMapFilePath) else None)
             bundleType w of
        Inl e \<Rightarrow> Inl e
      | Inr (moduleMap, w') \<Rightarrow>
          Inr (Object_assign moduleMap
                 [Object (getInternalModules cwd moduleType),
                  getNodeModules cwd bundleType moduleType,
                  getFbjsModuleAliases cwd bundleType], w'))"

definition getDefaultReplaceModules ::
  "string \<Rightarrow> bundleType \<Rightarrow> jsValue \<Rightarrow> string option \<Rightarrow> table" where
  "getDefaultReplaceModules cwd bundleType bundleModulesToStub featureFlags =
     Object_assign Map.empty
       [Object (replaceFbjsModuleAliases bundleType),
        replaceDevOnlyStubbedModules cwd bundleType,
        replaceLegacyModuleAliases cwd bundleType,
        Object (replaceBundleStubModules cwd bundleModulesToStub),
        Object (replaceFeatureFlags cwd featureFlags)]"

definition getExcludedHasteGlobs :: "string list" where
  "getExcludedHasteGlobs = exclude"

subsection \<open>The merge of the alias sources, as the specification words it\<close>

text \<open>
  The specification describes the alias table as a merge in which a later source wins,
  of the module map and three fixed sources. The definitions of this subsection follow
  its words, not the code; they are compared with \<^verbatim>\<open>getAliases\<close> below.
\<close>

fun spec_laterWins :: "table list \<Rightarrow> table" where
  "spec_laterWins [] name = None"
| "spec_laterWins (source # later) name =
     (case spec_laterWins later name of Some path \<Rightarrow> Some path | None \<Rightarrow> source name)"

fun spec_universalModule :: "bundleType \<Rightarrow> bool" where
  "spec_universalModule UMD_DEV = True"
| "spec_universalModule UMD_PROD = True"
| "spec_universalModule _ = False"

definition spec_internalPackageAliases :: "string \<Rightarrow> moduleType \<Rightarrow> table" where
  "spec_internalPackageAliases cwd role name =
     (if name = ''reactProdInvariant''
        then Some (resolve cwd ''./packages/shared/reactProdInvariant.js'')
      else if name = ''react-reconciler'' \<and> role = RENDERER
        then Some (resolve cwd ''./packages/react-reconciler/index.js'')
      else None)"

definition spec_vendoredAliases :: "string \<Rightarrow> bundleType \<Rightarrow> moduleType \<Rightarrow> table" where
  "spec_vendoredAliases cwd variant role name =
     (if spec_universalModule variant then
        (if name = ''object-assign''
           then Some (if role = ISOMORPHIC
                      then resolve cwd ''./node_modules/object-assign/index.js''
                      else resolve cwd ''./scripts/rollup/shims/rollup/assign.js'')
         else if name = ''art/modes/current''
           then Some (resolve cwd ''./node_modules/art/modes/current.js'')
         else if name = ''art/modes/fast-noSideEffects''
           then Some (resolve cwd ''./node_modules/art/modes/fast-noSideEffects.js'')
         else if name = ''art/core/transform''
           then Some (resolve cwd ''./node_modules/art/core/transform.js'')
         else None)
      else None)"

definition spec_thirdPartyAliases :: "string \<Rightarrow> bundleType \<Rightarrow> table" where
  "spec_thirdPartyAliases cwd variant name =
     (if spec_universalModule variant \<and> name \<in> set fbjsModules
      then Some (resolve cwd (''./node_modules/'' @ name))
      else None)"

subsection \<open>A file system to run the scan on\<close>

text \<open>
  Collaborators for evaluating the scan on an example: one pattern matches three files,
  the module name of a path is its last segment without the extension, and the state is
  the number of files the error-code extractor has seen.
\<close>

definition exampleBasename :: "string \<Rightarrow> string \<Rightarrow> string" where
  "exampleBasename file ext =
     (let name = last (split_on CHR ''/'' file)
      in if length ext < length name \<and> drop (length name - length ext) name = ext
         then take (length name - length ext) name
         else name)"

definition exampleFiles :: "string list" where
  "exampleFiles =
     [''src/isomorphic/ReactCurrentOwner.js'',
      ''src/shared/lowPriorityWarning.js'',
      ''src/shared/object-assign.js'']"

definition exampleCollaborators :: "nat collaborators" where
  "exampleCollaborators =
     \<lparr>sync = (\<lambda>w pattern ignore. if pattern = ''src/**/*.js'' then Inr exampleFiles else Inr []),
      basename = exampleBasename,
      extractErrorCodes = (\<lambda>opts file w. Inr (Suc w))\<rparr>"

section \<open>Properties\<close>

subsection \<open>Paths\<close>

lemma split_on_not_Nil: "split_on c xs \<noteq> []"
  by (induction xs) (auto split: list.splits)

lemma split_on_append: "split_on c (xs @ c # ys) = split_on c xs @ split_on c ys"
  by (induction xs) (auto split: list.splits simp: split_on_not_Nil)

lemma join_segments_append:
  "join_segments (xs @ ys) = join_segments xs @ join_segments ys"
  by (induction xs) simp_all

text \<open>
  A relative path is resolved from the segments of the working directory, whatever the
  working directory is.
\<close>

lemma resolve_relative:
  "\<not> isAbsolute path \<Longrightarrow>
   resolve cwd path =
     (let segs = foldl normalize_segment (cwdSegments cwd) (split_on CHR ''/'' path)
      in if segs = [] then ''/'' else join_segments segs)"
  by (simp add: resolve_def cwdSegments_def split_on_append Let_def)

lemma resolve_object_assign:
  "resolve cwd ''./node_modules/object-assign/index.js'' =
     join_segments (cwdSegments cwd) @ ''/node_modules/object-assign/index.js''"
  by (simp add: resolve_relative join_segments_append)

lemma resolve_assign_shim:
  "resolve cwd ''./scripts/rollup/shims/rollup/assign.js'' =
     join_segments (cwdSegments cwd) @ ''/scripts/rollup/shims/rollup/assign.js''"
  by (simp add: resolve_relative join_segments_append)

subsection \<open>Tables\<close>

lemma foldl_push: "foldl push xs ys = xs @ ys"
  by (induction ys arbitrary: xs) (simp_all add: push_def)

lemma quoted_eq_iff: "quoted a = quoted b \<longleftrightarrow> a = b"
  by (simp add: quoted_def)

lemma quoted_not_proto: "quoted s \<noteq> ''__proto__''"
  by (simp add: quoted_def)

lemma setProperty_quoted: "setProperty obj (quoted k) v = obj(quoted k \<mapsto> v)"
  by (simp add: setProperty_def quoted_not_proto)

lemma assignSource_eq: "assignSource target r = target ++ ownProperties r"
  by (cases r) simp_all

lemma stub_values_foldl:
  "foldl (\<lambda>stubbedModules module. setProperty stubbedModules (quoted module) s) acc xs k =
     (if k \<in> quoted ` set xs then Some s else acc k)"
  by (induction xs arbitrary: acc) (auto simp: setProperty_quoted)

lemma replaceBundleStubModules_array:
  "replaceBundleStubModules cwd (JArray xs) k =
     (if k \<in> quoted ` set xs then Some (devOnlyModuleStub cwd) else None)"
  by (simp add: stub_values_foldl)

lemma replaceBundleStubModules_not_array:
  "\<not> isArray v \<Longrightarrow> replaceBundleStubModules cwd v = Map.empty"
  by (cases v) simp_all

lemma replaceBundleStubModules_value:
  "replaceBundleStubModules cwd v k = None \<or>
   replaceBundleStubModules cwd v k = Some (devOnlyModuleStub cwd)"
  by (cases v) (simp_all add: stub_values_foldl)

lemma devOnlyModuleAliases_apply:
  "devOnlyModuleAliases cwd k =
     (if k \<in> set devOnlyFilesToStubOut then Some (devOnlyModuleStub cwd) else None)"
  by (simp add: devOnlyModuleAliases_def devOnlyFilesToStubOut_def setProperty_quoted)

lemma umdLegacyModulesAlias_apply:
  "umdLegacyModulesAlias cwd k =
     (if k = quoted ''prop-types/checkPropTypes''
        then Some (quoted (resolve cwd ''./node_modules/prop-types/checkPropTypes''))
      else if k = quoted ''prop-types''
        then Some (quoted (resolve cwd ''./node_modules/prop-types/index''))
      else if k = quoted ''create-react-class/factory''
        then Some (quoted (resolve cwd ''./node_modules/create-react-class/factory''))
      else if k = quoted ''create-react-class''
        then Some (quoted (resolve cwd ''./node_modules/create-react-class/index''))
      else None)"
  by (simp add: umdLegacyModulesAlias_def legacyModules_def legacyModulePath_def
      setProperty_quoted)

lemma replaceFeatureFlags_key:
  "replaceFeatureFlags cwd featureFlags k = None \<or> k = quoted ''ReactFeatureFlags''"
  by (cases featureFlags) simp_all

lemma getDefaultReplaceModules_eq:
  "getDefaultReplaceModules cwd bundleType bundleModulesToStub featureFlags =
     replaceFbjsModuleAliases bundleType
       ++ ownProperties (replaceDevOnlyStubbedModules cwd bundleType)
       ++ ownProperties (replaceLegacyModuleAliases cwd bundleType)
       ++ replaceBundleStubModules cwd bundleModulesToStub
       ++ replaceFeatureFlags cwd featureFlags"
  by (simp add: getDefaultReplaceModules_def Object_assign_def assignSource_eq)

lemma getDefaultReplaceModules_apply:
  "getDefaultReplaceModules cwd bundleType bundleModulesToStub featureFlags k =
     (case replaceFeatureFlags cwd featureFlags k of
        Some v \<Rightarrow> Some v
      | None \<Rightarrow>
         (case replaceBundleStubModules cwd bundleModulesToStub k of
            Some v \<Rightarrow> Some v
          | None \<Rightarrow>
             (case ownProperties (replaceLegacyModuleAliases cwd bundleType) k of
                Some v \<Rightarrow> Some v
              | None \<Rightarrow>
                 (case ownProperties (replaceDevOnlyStubbedModules cwd bundleType) k of
                    Some v \<Rightarrow> Some v
                  | None \<Rightarrow> replaceFbjsModuleAliases bundleType k))))"
  by (simp add: getDefaultReplaceModules_eq map_add_def split: option.splits)

subsection \<open>The external modules\<close>

lemma appended_names:
  "set (drop (length externals) (getExternalModules externals bundleType moduleType))
     \<subseteq> set fbjsModules \<union>
        {''object-assign'', ''react'', ''React'', ''ReactDOM'', ''ReactCurrentOwner'',
         ''lowPriorityWarning''}"
  by (cases bundleType)
     (auto simp: pushReact_def pushFB_def pushFbjsAndAssign_def foldl_push push_def Let_def)

text \<open>
  Claim C1. For every bundle type (one of the eight or any other value) and every module
  type, the result of \<^verbatim>\<open>getExternalModules\<close> is the caller's list, unchanged and in
  order, followed by the entries the rules append.
\<close>

theorem getExternalModules_keeps_base_prefix:
  "\<exists>appended. getExternalModules externals bundleType moduleType = externals @ appended"
  by (cases bundleType)
     (simp_all add: pushReact_def pushFB_def pushFbjsAndAssign_def foldl_push push_def Let_def)

theorem getExternalModules_keeps_base_prefix_witness:
  "\<exists>appended. getExternalModules [''react-dom'', ''react-dom''] FB_PROD RENDERER =
      [''react-dom'', ''react-dom''] @ appended"
  using getExternalModules_keeps_base_prefix [of "[''react-dom'', ''react-dom'']" FB_PROD RENDERER]
  by simp

text \<open>
  Claim C2, amended in the count. For \<^verbatim>\<open>NODE_DEV\<close> and the isomorphic module type the
  result is the caller's list, then the names of \<^verbatim>\<open>fbjsModules\<close>, of which there are
  sixteen, then \<^verbatim>\<open>object-assign\<close>, and \<^verbatim>\<open>react\<close> is not among the appended names.
\<close>

theorem getExternalModules_node_dev_core:
  "getExternalModules externals NODE_DEV ISOMORPHIC =
     externals @ fbjsModules @ [''object-assign''] \<and>
   length fbjsModules = 16 \<and>
   ''react'' \<notin> set (fbjsModules @ [''object-assign''])"
  by (simp add: pushReact_def pushFbjsAndAssign_def foldl_push push_def)
     (simp add: fbjsModules_def)

theorem getExternalModules_node_dev_core_witness:
  "getExternalModules [''react-dom''] NODE_DEV ISOMORPHIC =
     [''react-dom''] @ fbjsModules @ [''object-assign''] \<and>
   length (getExternalModules [''react-dom''] NODE_DEV ISOMORPHIC) = 1 + 16 + 1"
  using getExternalModules_node_dev_core [of "[''react-dom'']"]
  by simp

text \<open>The list does not have fifteen names, and the result is not fifteen and one names long.\<close>

theorem fifteen_utility_names_counterexample:
  "length fbjsModules \<noteq> 15 \<and>
   length (getExternalModules [] NODE_DEV ISOMORPHIC) \<noteq> 0 + 15 + 1"
  by (simp add: pushReact_def pushFbjsAndAssign_def foldl_push push_def fbjsModules_def)

lemma fbjsModules_not_ignored:
  "''React'' \<notin> set fbjsModules" "''ReactDOM'' \<notin> set fbjsModules"
  "''ReactFeatureFlags'' \<notin> set fbjsModules" "''ReactCurrentOwner'' \<notin> set fbjsModules"
  "''lowPriorityWarning'' \<notin> set fbjsModules" "''View'' \<notin> set fbjsModules"
  "''react-dom'' \<notin> set fbjsModules"
  by (simp_all add: fbjsModules_def)

lemma appended_not_FB:
  assumes "bundleType \<notin> {FB_DEV, FB_PROD}"
  shows "set (drop (length externals) (getExternalModules externals bundleType moduleType))
           \<inter> set (ignoreFBModules @ ignoreReactNativeModules) = {}"
  using assms fbjsModules_not_ignored
  by (cases bundleType)
     (auto simp: pushReact_def pushFbjsAndAssign_def foldl_push push_def
        ignoreFBModules_def ignoreReactNativeModules_def)

lemma appended_FB:
  assumes "bundleType \<in> {FB_DEV, FB_PROD}"
  shows "drop (length externals) (getExternalModules externals bundleType moduleType) =
           fbjsModules @ [''object-assign'', ''ReactCurrentOwner'', ''lowPriorityWarning''] @
           (if moduleType = ISOMORPHIC then []
            else ''React'' # (if ''react-dom'' \<in> set externals then [''ReactDOM''] else []))"
  using assms fbjsModules_not_ignored(7)
  by (auto simp: pushFB_def pushFbjsAndAssign_def foldl_push push_def Let_def)

lemma appended_FB_ignored:
  assumes "bundleType \<in> {FB_DEV, FB_PROD}"
  shows "set (drop (length externals) (getExternalModules externals bundleType moduleType))
           \<inter> set (ignoreFBModules @ ignoreReactNativeModules) =
         {''ReactCurrentOwner'', ''lowPriorityWarning''} \<union>
         (if moduleType = ISOMORPHIC then {}
          else {''React''} \<union> (if ''react-dom'' \<in> set externals then {''ReactDOM''} else {}))"
  unfolding appended_FB [OF assms]
  using fbjsModules_not_ignored
  by (auto simp: ignoreFBModules_def ignoreReactNativeModules_def)

text \<open>
  Claim C9, amended. The two queries for ignored modules take no argument and are
  separate from \<^verbatim>\<open>getExternalModules\<close>. They return six distinct names, not two: the
  one for FB returns five and the one for React Native returns one, \<^verbatim>\<open>View\<close>. For a
  bundle type other than \<^verbatim>\<open>FB_DEV\<close> and \<^verbatim>\<open>FB_PROD\<close> none of the six is among the
  names \<^verbatim>\<open>getExternalModules\<close> appends. For the two FB bundle types four of them can be:
  \<^verbatim>\<open>ReactCurrentOwner\<close> and \<^verbatim>\<open>lowPriorityWarning\<close> always, \<^verbatim>\<open>React\<close> when the
  module type is not the isomorphic one, and \<^verbatim>\<open>ReactDOM\<close> when moreover the caller's
  list contains \<^verbatim>\<open>react-dom\<close>. \<^verbatim>\<open>View\<close> and \<^verbatim>\<open>ReactFeatureFlags\<close> are never
  appended.
\<close>

theorem ignored_modules_queries:
  "ignoreFBModules =
     [''React'', ''ReactDOM'', ''ReactFeatureFlags'', ''ReactCurrentOwner'',
      ''lowPriorityWarning''] \<and>
   ignoreReactNativeModules = [''View''] \<and>
   distinct (ignoreFBModules @ ignoreReactNativeModules) \<and>
   length (ignoreFBModules @ ignoreReactNativeModules) = 6 \<and>
   ''View'' \<notin> set (drop (length externals)
                      (getExternalModules externals bundleType moduleType)) \<and>
   ''ReactFeatureFlags'' \<notin> set (drop (length externals)
                      (getExternalModules externals bundleType moduleType)) \<and>
   (bundleType \<notin> {FB_DEV, FB_PROD} \<longrightarrow>
      set (drop (length externals) (getExternalModules externals bundleType moduleType))
        \<inter> set (ignoreFBModules @ ignoreReactNativeModules) = {}) \<and>
   (bundleType \<in> {FB_DEV, FB_PROD} \<longrightarrow>
      set (drop (length externals) (getExternalModules externals bundleType moduleType))
        \<inter> set (ignoreFBModules @ ignoreReactNativeModules) =
      {''ReactCurrentOwner'', ''lowPriorityWarning''} \<union>
      (if moduleType = ISOMORPHIC then {}
       else {''React''} \<union> (if ''react-dom'' \<in> set externals then {''ReactDOM''} else {})))"
proof -
  have "''View'' \<notin> set (drop (length externals)
                      (getExternalModules externals bundleType moduleType))"
    "''ReactFeatureFlags'' \<notin> set (drop (length externals)
                      (getExternalModules externals bundleType moduleType))"
    using appended_names [of externals bundleType moduleType] fbjsModules_not_ignored by auto
  moreover have "distinct (ignoreFBModules @ ignoreReactNativeModules)"
    "length (ignoreFBModules @ ignoreReactNativeModules) = 6"
    by (simp_all add: ignoreFBModules_def ignoreReactNativeModules_def)
  ultimately show ?thesis
    using appended_not_FB [of bundleType externals moduleType]
      appended_FB_ignored [of bundleType externals moduleType]
    by (simp add: ignoreFBModules_def [symmetric] ignoreReactNativeModules_def [symmetric])
qed

theorem ignored_modules_queries_witness:
  "length (ignoreFBModules @ ignoreReactNativeModules) = 6 \<and>
   RN_PROD \<notin> {FB_DEV, FB_PROD} \<and>
   ''View'' \<notin> set (drop (length [''View''])
                      (getExternalModules [''View''] RN_PROD RENDERER)) \<and>
   set (drop (length [''View'']) (getExternalModules [''View''] RN_PROD RENDERER))
     \<inter> set (ignoreFBModules @ ignoreReactNativeModules) = {} \<and>
   FB_PROD \<in> {FB_DEV, FB_PROD} \<and>
   set (drop (length [''react-dom'']) (getExternalModules [''react-dom''] FB_PROD RENDERER))
     \<inter> set (ignoreFBModules @ ignoreReactNativeModules) =
     {''ReactCurrentOwner'', ''lowPriorityWarning'', ''React'', ''ReactDOM''}"
proof -
  have a: "set (drop (length [''View'']) (getExternalModules [''View''] RN_PROD RENDERER))
     \<inter> set (ignoreFBModules @ ignoreReactNativeModules) = {}"
    "''View'' \<notin> set (drop (length [''View''])
                      (getExternalModules [''View''] RN_PROD RENDERER))"
    "length (ignoreFBModules @ ignoreReactNativeModules) = 6"
    using ignored_modules_queries [of "[''View'']" RN_PROD RENDERER]
    by (simp_all add: ignoreFBModules_def ignoreReactNativeModules_def)
  have b: "set (drop (length [''react-dom''])
                 (getExternalModules [''react-dom''] FB_PROD RENDERER))
     \<inter> set (ignoreFBModules @ ignoreReactNativeModules) =
     {''ReactCurrentOwner'', ''lowPriorityWarning'', ''React'', ''ReactDOM''}"
    using ignored_modules_queries [of "[''react-dom'']" FB_PROD RENDERER]
    by (simp add: ignoreFBModules_def ignoreReactNativeModules_def insert_commute)
  from a b show ?thesis by simp
qed

text \<open>
  Neither query returns two names, and the two together do not. And the names of the
  queries are not kept out of the external list: for \<^verbatim>\<open>FB_DEV\<close>, a renderer and the
  caller's list \<^verbatim>\<open>['react-dom']\<close>, four names of \<^verbatim>\<open>ignoreFBModules\<close> are appended.
\<close>

theorem ignored_modules_counterexample:
  "length ignoreFBModules \<noteq> 2 \<and> length ignoreReactNativeModules \<noteq> 2 \<and>
   card (set ignoreFBModules \<union> set ignoreReactNativeModules) \<noteq> 2 \<and>
   ''ReactCurrentOwner'' \<in> set ignoreFBModules \<and>
   ''lowPriorityWarning'' \<in> set ignoreFBModules \<and>
   ''React'' \<in> set ignoreFBModules \<and>
   ''ReactDOM'' \<in> set ignoreFBModules \<and>
   drop (length [''react-dom'']) (getExternalModules [''react-dom''] FB_DEV RENDERER) =
     fbjsModules @
     [''object-assign'', ''ReactCurrentOwner'', ''lowPriorityWarning'', ''React'', ''ReactDOM'']"
  by (simp add: ignoreFBModules_def ignoreReactNativeModules_def pushFB_def
      pushFbjsAndAssign_def foldl_push push_def Let_def)

subsection \<open>The replacements\<close>

lemma devOnly_names_fresh:
  assumes "k \<in> set devOnlyFilesToStubOut"
  shows "replaceFeatureFlags cwd featureFlags k = None"
    and "umdLegacyModulesAlias cwd k = None"
    and "replaceFbjsModuleAliases bundleType k = None"
proof -
  show "replaceFeatureFlags cwd featureFlags k = None"
    using assms replaceFeatureFlags_key [of cwd featureFlags k]
    by (auto simp: devOnlyFilesToStubOut_def quoted_eq_iff)
  show "umdLegacyModulesAlias cwd k = None"
    using assms by (auto simp: umdLegacyModulesAlias_apply devOnlyFilesToStubOut_def quoted_eq_iff)
  show "replaceFbjsModuleAliases bundleType k = None"
    using assms by (cases bundleType) (auto simp: devOnlyFilesToStubOut_def quoted_eq_iff)
qed

lemma legacy_own_fresh:
  "k \<in> set devOnlyFilesToStubOut \<Longrightarrow>
   ownProperties (replaceLegacyModuleAliases cwd bundleType) k = None"
  by (cases bundleType) (simp_all add: devOnly_names_fresh)

text \<open>
  Claim C3, amended in the caller's list. For \<^verbatim>\<open>UMD_PROD\<close>, no feature-flag path and
  the stub list \<^verbatim>\<open>['ReactDebugTools']\<close> (the bare name: the function adds the quotes),
  the table is exactly the four redirects of the legacy packages, the four development-only
  names and \<^verbatim>\<open>'ReactDebugTools'\<close> mapped to the stub, and it has no entry for
  \<^verbatim>\<open>'ReactFeatureFlags'\<close>. The function takes no module type.
\<close>

theorem umd_prod_replacements_scenario:
  "getDefaultReplaceModules cwd UMD_PROD (JArray [''ReactDebugTools'']) None =
     [quoted ''create-react-class'' \<mapsto>
        quoted (resolve cwd ''./node_modules/create-react-class/index''),
      quoted ''create-react-class/factory'' \<mapsto>
        quoted (resolve cwd ''./node_modules/create-react-class/factory''),
      quoted ''prop-types'' \<mapsto> quoted (resolve cwd ''./node_modules/prop-types/index''),
      quoted ''prop-types/checkPropTypes'' \<mapsto>
        quoted (resolve cwd ''./node_modules/prop-types/checkPropTypes''),
      quoted ''ReactDebugCurrentFrame'' \<mapsto> devOnlyModuleStub cwd,
      quoted ''ReactComponentTreeHook'' \<mapsto> devOnlyModuleStub cwd,
      quoted ''ReactPerf'' \<mapsto> devOnlyModuleStub cwd,
      quoted ''ReactTestUtils'' \<mapsto> devOnlyModuleStub cwd,
      quoted ''ReactDebugTools'' \<mapsto> devOnlyModuleStub cwd] \<and>
   getDefaultReplaceModules cwd UMD_PROD (JArray [''ReactDebugTools'']) None
     (quoted ''ReactFeatureFlags'') = None"
proof -
  have "getDefaultReplaceModules cwd UMD_PROD (JArray [''ReactDebugTools'']) None k =
     [quoted ''create-react-class'' \<mapsto>
        quoted (resolve cwd ''./node_modules/create-react-class/index''),
      quoted ''create-react-class/factory'' \<mapsto>
        quoted (resolve cwd ''./node_modules/create-react-class/factory''),
      quoted ''prop-types'' \<mapsto> quoted (resolve cwd ''./node_modules/prop-types/index''),
      quoted ''prop-types/checkPropTypes'' \<mapsto>
        quoted (resolve cwd ''./node_modules/prop-types/checkPropTypes''),
      quoted ''ReactDebugCurrentFrame'' \<mapsto> devOnlyModuleStub cwd,
      quoted ''ReactComponentTreeHook'' \<mapsto> devOnlyModuleStub cwd,
      quoted ''ReactPerf'' \<mapsto> devOnlyModuleStub cwd,
      quoted ''ReactTestUtils'' \<mapsto> devOnlyModuleStub cwd,
      quoted ''ReactDebugTools'' \<mapsto> devOnlyModuleStub cwd] k" for k
    by (simp add: getDefaultReplaceModules_apply setProperty_quoted
        umdLegacyModulesAlias_apply devOnlyModuleAliases_apply devOnlyFilesToStubOut_def
        quoted_eq_iff)
  then have "getDefaultReplaceModules cwd UMD_PROD (JArray [''ReactDebugTools'']) None =
     [quoted ''create-react-class'' \<mapsto>
        quoted (resolve cwd ''./node_modules/create-react-class/index''),
      quoted ''create-react-class/factory'' \<mapsto>
        quoted (resolve cwd ''./node_modules/create-react-class/factory''),
      quoted ''prop-types'' \<mapsto> quoted (resolve cwd ''./node_modules/prop-types/index''),
      quoted ''prop-types/checkPropTypes'' \<mapsto>
        quoted (resolve cwd ''./node_modules/prop-types/checkPropTypes''),
      quoted ''ReactDebugCurrentFrame'' \<mapsto> devOnlyModuleStub cwd,
      quoted ''ReactComponentTreeHook'' \<mapsto> devOnlyModuleStub cwd,
      quoted ''ReactPerf'' \<mapsto> devOnlyModuleStub cwd,
      quoted ''ReactTestUtils'' \<mapsto> devOnlyModuleStub cwd,
      quoted ''ReactDebugTools'' \<mapsto> devOnlyModuleStub cwd]"
    by (rule ext)
  then show ?thesis
    by (simp add: quoted_eq_iff)
qed

theorem umd_prod_replacements_scenario_witness:
  "getDefaultReplaceModules ''/repo'' UMD_PROD (JArray [''ReactDebugTools'']) None
     (quoted ''ReactDebugTools'') =
     Some (quoted ''/repo/scripts/rollup/shims/rollup/DevOnlyStubShim.js'') \<and>
   getDefaultReplaceModules ''/repo'' UMD_PROD (JArray [''ReactDebugTools'']) None
     (quoted ''prop-types'') = Some (quoted ''/repo/node_modules/prop-types/index'') \<and>
   getDefaultReplaceModules ''/repo'' UMD_PROD (JArray [''ReactDebugTools'']) None
     (quoted ''ReactFeatureFlags'') = None"
proof -
  have stub: "devOnlyModuleStub ''/repo'' =
      quoted ''/repo/scripts/rollup/shims/rollup/DevOnlyStubShim.js''"
    by (simp add: devOnlyModuleStub_def resolve_def)
  have idx: "resolve ''/repo'' ''./node_modules/prop-types/index'' =
      ''/repo/node_modules/prop-types/index''"
    by (simp add: resolve_def)
  show ?thesis
    using umd_prod_replacements_scenario [of "''/repo''"]
    by (simp add: stub idx quoted_eq_iff)
qed

text \<open>
  With the name already quoted in the caller's list, the key between one pair of quotes
  is absent: the entry is under the name between two pairs.
\<close>

theorem quoted_stub_name_counterexample:
  "getDefaultReplaceModules ''/repo'' UMD_PROD (JArray [quoted ''ReactDebugTools'']) None
     (quoted ''ReactDebugTools'') = None \<and>
   getDefaultReplaceModules ''/repo'' UMD_PROD (JArray [quoted ''ReactDebugTools'']) None
     (quoted (quoted ''ReactDebugTools'')) =
     Some (quoted ''/repo/scripts/rollup/shims/rollup/DevOnlyStubShim.js'')"
proof -
  have stub: "devOnlyModuleStub ''/repo'' =
      quoted ''/repo/scripts/rollup/shims/rollup/DevOnlyStubShim.js''"
    by (simp add: devOnlyModuleStub_def resolve_def)
  have neq: "''ReactDebugTools'' \<noteq> quoted ''ReactDebugTools''"
    by (simp add: quoted_def)
  show ?thesis
    by (simp add: getDefaultReplaceModules_apply setProperty_quoted
        umdLegacyModulesAlias_apply devOnlyModuleAliases_apply devOnlyFilesToStubOut_def
        quoted_eq_iff stub neq)
qed

text \<open>
  Claim C6. For \<^verbatim>\<open>UMD_PROD\<close>, \<^verbatim>\<open>NODE_PROD\<close> and \<^verbatim>\<open>FB_PROD\<close> each of the four
  development-only names is a key of the table of replacements, mapped to the one stub,
  whatever the caller's stub list and feature-flag path are. For the development bundle
  types and \<^verbatim>\<open>RN_PROD\<close> the source of development-only stubs is the empty object.
\<close>

theorem devOnly_stubs_by_variant:
  "(bundleType \<in> {UMD_PROD, NODE_PROD, FB_PROD} \<longrightarrow>
      (\<forall>k \<in> set devOnlyFilesToStubOut.
         getDefaultReplaceModules cwd bundleType bundleModulesToStub featureFlags k =
           Some (devOnlyModuleStub cwd))) \<and>
   (bundleType \<in> {UMD_DEV, NODE_DEV, FB_DEV, RN_DEV, RN_PROD} \<longrightarrow>
      replaceDevOnlyStubbedModules cwd bundleType = Object Map.empty) \<and>
   devOnlyFilesToStubOut =
     [quoted ''ReactDebugCurrentFrame'', quoted ''ReactComponentTreeHook'',
      quoted ''ReactPerf'', quoted ''ReactTestUtils''] \<and>
   distinct devOnlyFilesToStubOut"
proof -
  have prod: "getDefaultReplaceModules cwd bundleType bundleModulesToStub featureFlags k =
           Some (devOnlyModuleStub cwd)"
    if b: "bundleType \<in> {UMD_PROD, NODE_PROD, FB_PROD}" and k: "k \<in> set devOnlyFilesToStubOut"
    for k
  proof -
    have dev: "ownProperties (replaceDevOnlyStubbedModules cwd bundleType) k =
        Some (devOnlyModuleStub cwd)"
      using b k by (auto simp: devOnlyModuleAliases_apply)
    show ?thesis
      using replaceBundleStubModules_value [of cwd bundleModulesToStub k]
      by (auto simp: getDefaultReplaceModules_apply dev legacy_own_fresh [OF k]
          devOnly_names_fresh(1) [OF k])
  qed
  have dev: "replaceDevOnlyStubbedModules cwd bundleType = Object Map.empty"
    if "bundleType \<in> {UMD_DEV, NODE_DEV, FB_DEV, RN_DEV, RN_PROD}"
    using that by auto
  have names: "distinct devOnlyFilesToStubOut"
    by (simp add: devOnlyFilesToStubOut_def quoted_eq_iff)
  show ?thesis
    using prod dev names by (simp add: devOnlyFilesToStubOut_def)
qed

theorem devOnly_stubs_by_variant_witness:
  "NODE_PROD \<in> {UMD_PROD, NODE_PROD, FB_PROD} \<and>
   RN_PROD \<in> {UMD_DEV, NODE_DEV, FB_DEV, RN_DEV, RN_PROD} \<and>
   quoted ''ReactPerf'' \<in> set devOnlyFilesToStubOut \<and>
   getDefaultReplaceModules ''/repo'' NODE_PROD (JArray [''ReactPerf'']) (Some ''flags.js'')
       (quoted ''ReactPerf'') =
     Some (quoted ''/repo/scripts/rollup/shims/rollup/DevOnlyStubShim.js'') \<and>
   replaceDevOnlyStubbedModules ''/repo'' RN_PROD = Object Map.empty"
proof -
  have stub: "devOnlyModuleStub ''/repo'' =
      quoted ''/repo/scripts/rollup/shims/rollup/DevOnlyStubShim.js''"
    by (simp add: devOnlyModuleStub_def resolve_def)
  have k: "quoted ''ReactPerf'' \<in> set devOnlyFilesToStubOut"
    by (simp add: devOnlyFilesToStubOut_def)
  have "getDefaultReplaceModules ''/repo'' NODE_PROD (JArray [''ReactPerf'']) (Some ''flags.js'')
       (quoted ''ReactPerf'') = Some (devOnlyModuleStub ''/repo'')"
    using devOnly_stubs_by_variant
      [of NODE_PROD "''/repo''" "JArray [''ReactPerf'']" "Some ''flags.js''"] k
    by simp
  then show ?thesis
    using k by (simp add: stub)
qed

text \<open>
  Claim C10. When the caller's stub list is not an array (omitted, \<^verbatim>\<open>null\<close> or any other
  value), \<^verbatim>\<open>replaceBundleStubModules\<close> returns the empty object and
  \<^verbatim>\<open>getDefaultReplaceModules\<close> returns the merge of the other four sources. Both
  functions are total: no path of theirs raises.
\<close>

theorem getDefaultReplaceModules_not_array:
  assumes "\<not> isArray bundleModulesToStub"
  shows "replaceBundleStubModules cwd bundleModulesToStub = Map.empty \<and>
     getDefaultReplaceModules cwd bundleType bundleModulesToStub featureFlags =
       replaceFbjsModuleAliases bundleType
         ++ ownProperties (replaceDevOnlyStubbedModules cwd bundleType)
         ++ ownProperties (replaceLegacyModuleAliases cwd bundleType)
         ++ replaceFeatureFlags cwd featureFlags"
  using assms by (simp add: getDefaultReplaceModules_eq replaceBundleStubModules_not_array)

theorem getDefaultReplaceModules_not_array_witness:
  "\<not> isArray JNull \<and> replaceBundleStubModules ''/repo'' JNull = Map.empty \<and>
   getDefaultReplaceModules ''/repo'' FB_DEV JNull None =
     [quoted ''react'' \<mapsto> quoted ''React'', quoted ''react-dom'' \<mapsto> quoted ''ReactDOM'']"
  using getDefaultReplaceModules_not_array [of JNull "''/repo''" FB_DEV None] by simp

subsection \<open>The module map\<close>

text \<open>The keys after a scan: those before it and the module names of the scanned files.\<close>

lemma forEachFile_dom:
  "forEachFile c cwd h files (m, w) = Inr (m', w') \<Longrightarrow>
   dom m' = dom m \<union> ((\<lambda>file. basename c file ''.js'') ` set files - {''__proto__''})"
proof (induction files arbitrary: m w)
  case Nil
  then show ?case by simp
next
  case (Cons f fs)
  then show ?case
    by (auto simp: setProperty_def Let_def split: sum.splits if_splits)
qed

lemma forEachPath_dom_mono:
  "forEachPath c cwd h paths (m, w) = Inr (m', w') \<Longrightarrow> dom m \<subseteq> dom m'"
proof (induction paths arbitrary: m w)
  case Nil
  then show ?case by simp
next
  case (Cons path paths)
  from Cons.prems obtain files m1 w1 where
    f: "forEachFile c cwd h files (m, w) = Inr (m1, w1)"
    and r: "forEachPath c cwd h paths (m1, w1) = Inr (m', w')"
    by (auto split: sum.splits)
  from forEachFile_dom [OF f] Cons.IH [OF r] show ?case by auto
qed

lemma forEachPath_scanned:
  assumes "forEachPath c cwd h paths (m, w) = Inr (m', w')"
    and "path \<in> set paths"
    and "\<forall>w. sync c w path exclude = Inr files"
    and "file \<in> set files"
    and "basename c file ''.js'' \<noteq> ''__proto__''"
  shows "basename c file ''.js'' \<in> dom m'"
  using assms(1,2)
proof (induction paths arbitrary: m w)
  case Nil
  then show ?case by simp
next
  case (Cons p paths)
  from Cons.prems(1) obtain fs m1 w1 where
    s: "sync c w p exclude = Inr fs"
    and f: "forEachFile c cwd h fs (m, w) = Inr (m1, w1)"
    and r: "forEachPath c cwd h paths (m1, w1) = Inr (m', w')"
    by (auto split: sum.splits)
  show ?case
  proof (cases "p = path")
    case True
    with s assms(3) have "fs = files" by simp
    with forEachFile_dom [OF f] assms(4,5) have "basename c file ''.js'' \<in> dom m1" by auto
    with forEachPath_dom_mono [OF r] show ?thesis by auto
  next
    case False
    with Cons.prems(2) have "path \<in> set paths" by simp
    from Cons.IH [OF r this] show ?thesis .
  qed
qed

text \<open>The scan of the example file system.\<close>

lemma example_scan:
  "forEachPath exampleCollaborators ''/repo''
     (if extractErrors then Some (extractErrorCodes exampleCollaborators errorMapFilePath)
      else None)
     [''src/**/*.js''] (Map.empty, 0) =
     Inr ([''ReactCurrentOwner'' \<mapsto> ''/repo/src/isomorphic/ReactCurrentOwner.js'',
           ''lowPriorityWarning'' \<mapsto> ''/repo/src/shared/lowPriorityWarning.js'',
           ''object-assign'' \<mapsto> ''/repo/src/shared/object-assign.js''],
          if extractErrors then 3 else 0)"
  by (simp add: exampleCollaborators_def exampleFiles_def exampleBasename_def setProperty_def
      resolve_def Let_def)

lemma example_createModuleMap_FB:
  "createModuleMap exampleCollaborators ''/repo'' [''src/**/*.js''] None FB_DEV 0 =
     Inr ([''object-assign'' \<mapsto> ''/repo/src/shared/object-assign.js''], 0)"
  unfolding createModuleMap_def using example_scan [of False]
  by (auto simp: deleteProperty_def)

lemma example_createModuleMap:
  "\<not> isFB bundleType \<Longrightarrow>
   createModuleMap exampleCollaborators ''/repo'' [''src/**/*.js'']
     (if extractErrors then Some (extractErrorCodes exampleCollaborators errorMapFilePath)
      else None) bundleType 0 =
     Inr ([''ReactCurrentOwner'' \<mapsto> ''/repo/src/isomorphic/ReactCurrentOwner.js'',
           ''lowPriorityWarning'' \<mapsto> ''/repo/src/shared/lowPriorityWarning.js'',
           ''object-assign'' \<mapsto> ''/repo/src/shared/object-assign.js''],
          if extractErrors then 3 else 0)"
  unfolding createModuleMap_def example_scan by simp

text \<open>
  Claim C7. When the scan returns, for \<^verbatim>\<open>FB_DEV\<close> and \<^verbatim>\<open>FB_PROD\<close> the module map
  has neither the key \<^verbatim>\<open>ReactCurrentOwner\<close> nor the key \<^verbatim>\<open>lowPriorityWarning\<close>,
  whatever files were scanned. For every other bundle type the module map is the map
  the scan built, with nothing deleted: every file that a pattern of the caller matches
  has its module name as a key.
\<close>

theorem createModuleMap_reserved_names:
  assumes "createModuleMap c cwd paths extractErrors bundleType w = Inr (moduleMap, w')"
  shows "(bundleType \<in> {FB_DEV, FB_PROD} \<longrightarrow>
            moduleMap ''ReactCurrentOwner'' = None \<and> moduleMap ''lowPriorityWarning'' = None) \<and>
         (bundleType \<notin> {FB_DEV, FB_PROD} \<longrightarrow>
            forEachPath c cwd extractErrors paths (Map.empty, w) = Inr (moduleMap, w') \<and>
            (\<forall>path \<in> set paths. \<forall>files. (\<forall>w. sync c w path exclude = Inr files) \<longrightarrow>
               (\<forall>file \<in> set files. basename c file ''.js'' \<noteq> ''__proto__'' \<longrightarrow>
                  moduleMap (basename c file ''.js'') \<noteq> None)))"
proof (cases "isFB bundleType")
  case True
  then have fb: "bundleType \<in> {FB_DEV, FB_PROD}"
    by (cases bundleType) simp_all
  from assms True have "moduleMap ''ReactCurrentOwner'' = None \<and> moduleMap ''lowPriorityWarning'' = None"
    by (auto simp: createModuleMap_def deleteProperty_def split: sum.splits)
  with fb show ?thesis by simp
next
  case False
  then have nfb: "bundleType \<notin> {FB_DEV, FB_PROD}"
    by (cases bundleType) simp_all
  from assms False have scan: "forEachPath c cwd extractErrors paths (Map.empty, w) = Inr (moduleMap, w')"
    by (auto simp: createModuleMap_def split: sum.splits)
  have "moduleMap (basename c f ''.js'') \<noteq> None"
    if "path \<in> set paths" "\<forall>w. sync c w path exclude = Inr files" "f \<in> set files"
      "basename c f ''.js'' \<noteq> ''__proto__''" for path files f
    using forEachPath_scanned [OF scan that] by auto
  with nfb scan show ?thesis by blast
qed

theorem createModuleMap_reserved_names_witness:
  "createModuleMap exampleCollaborators ''/repo'' [''src/**/*.js''] None FB_DEV 0 =
     Inr ([''object-assign'' \<mapsto> ''/repo/src/shared/object-assign.js''], 0) \<and>
   [''object-assign'' \<mapsto> ''/repo/src/shared/object-assign.js''] ''ReactCurrentOwner'' = None \<and>
   createModuleMap exampleCollaborators ''/repo'' [''src/**/*.js''] None NODE_DEV 0 =
     Inr ([''ReactCurrentOwner'' \<mapsto> ''/repo/src/isomorphic/ReactCurrentOwner.js'',
           ''lowPriorityWarning'' \<mapsto> ''/repo/src/shared/lowPriorityWarning.js'',
           ''object-assign'' \<mapsto> ''/repo/src/shared/object-assign.js''], 0) \<and>
   [''ReactCurrentOwner'' \<mapsto> ''/repo/src/isomorphic/ReactCurrentOwner.js'',
    ''lowPriorityWarning'' \<mapsto> ''/repo/src/shared/lowPriorityWarning.js'',
    ''object-assign'' \<mapsto> ''/repo/src/shared/object-assign.js'']
     (basename exampleCollaborators ''src/isomorphic/ReactCurrentOwner.js'' ''.js'') \<noteq> None"
proof -
  let ?m = "[''ReactCurrentOwner'' \<mapsto> ''/repo/src/isomorphic/ReactCurrentOwner.js'',
           ''lowPriorityWarning'' \<mapsto> ''/repo/src/shared/lowPriorityWarning.js'',
           ''object-assign'' \<mapsto> ''/repo/src/shared/object-assign.js'']"
  note fb = example_createModuleMap_FB
  have node: "createModuleMap exampleCollaborators ''/repo'' [''src/**/*.js''] None NODE_DEV 0 =
     Inr (?m, 0)"
    using example_createModuleMap [of NODE_DEV False] by simp
  have files: "\<forall>w. sync exampleCollaborators w ''src/**/*.js'' exclude = Inr exampleFiles"
    by (simp add: exampleCollaborators_def)
  have name: "basename exampleCollaborators ''src/isomorphic/ReactCurrentOwner.js'' ''.js'' =
      ''ReactCurrentOwner''"
    by (simp add: exampleCollaborators_def exampleBasename_def)
  from createModuleMap_reserved_names [OF fb]
  have a: "[''object-assign'' \<mapsto> ''/repo/src/shared/object-assign.js''] ''ReactCurrentOwner'' = None"
    by simp
  from createModuleMap_reserved_names [OF node] files
  have b: "?m (basename exampleCollaborators ''src/isomorphic/ReactCurrentOwner.js'' ''.js'') \<noteq> None"
    by (simp add: name)
  from fb node a b show ?thesis by simp
qed

subsection \<open>The aliases\<close>

lemma getAliases_eq:
  "getAliases c cwd paths bundleType moduleType extractErrors w =
     (case createModuleMap c cwd paths
             (if extractErrors then Some (extractErrorCodes c errorMapFilePath) else None)
             bundleType w of
        Inl e \<Rightarrow> Inl e
      | Inr (moduleMap, w') \<Rightarrow>
          Inr (moduleMap ++ getInternalModules cwd moduleType
                 ++ ownProperties (getNodeModules cwd bundleType moduleType)
                 ++ ownProperties (getFbjsModuleAliases cwd bundleType), w'))"
  by (simp add: getAliases_def Object_assign_def assignSource_eq split: sum.splits)

lemma alias_foldl:
  "foldl (\<lambda>aliases name. setProperty aliases name (f name)) acc names k =
     (if k \<in> set names \<and> k \<noteq> ''__proto__'' then Some (f k) else acc k)"
  by (induction names arbitrary: acc) (auto simp: setProperty_def)

lemma umdFbjsModulesAlias_apply:
  "umdFbjsModulesAlias cwd k =
     (if k \<in> set fbjsModules then Some (resolve cwd (''./node_modules/'' @ k)) else None)"
proof -
  have "''__proto__'' \<notin> set fbjsModules"
    by (simp add: fbjsModules_def)
  then show ?thesis
    unfolding umdFbjsModulesAlias_def alias_foldl by auto
qed

lemma fbjs_aliases_spec:
  "ownProperties (getFbjsModuleAliases cwd bundleType) = spec_thirdPartyAliases cwd bundleType"
  by (rule ext, cases bundleType)
     (simp_all add: spec_thirdPartyAliases_def umdFbjsModulesAlias_apply)

lemma node_modules_spec:
  "ownProperties (getNodeModules cwd bundleType moduleType) =
     spec_vendoredAliases cwd bundleType moduleType"
  by (rule ext, cases bundleType)
     (simp_all add: spec_vendoredAliases_def umdNodeModules_def)

lemma internal_modules_spec:
  "getInternalModules cwd moduleType = spec_internalPackageAliases cwd moduleType"
  by (rule ext) (simp add: getInternalModules_def spec_internalPackageAliases_def setProperty_def Let_def)

lemma spec_laterWins_four:
  "spec_laterWins [a, b, c, d] = a ++ b ++ c ++ d"
  by (rule ext) (simp add: map_add_def split: option.splits)

text \<open>
  Claim C8. For every list of patterns, bundle type and module type, \<^verbatim>\<open>getAliases\<close>
  fails exactly when the scan of \<^verbatim>\<open>createModuleMap\<close> fails, and otherwise returns the
  merge, a later source winning, of the module map, the internal-package aliases (the
  invariant helper always, the reconciler exactly for the renderer module type), the
  vendored-dependency aliases and the third-party-module aliases, in that order.
\<close>

theorem getAliases_is_merge:
  "getAliases c cwd paths bundleType moduleType extractErrors w =
     (case createModuleMap c cwd paths
             (if extractErrors then Some (extractErrorCodes c errorMapFilePath) else None)
             bundleType w of
        Inl e \<Rightarrow> Inl e
      | Inr (moduleMap, w') \<Rightarrow>
          Inr (spec_laterWins
                 [moduleMap,
                  spec_internalPackageAliases cwd moduleType,
                  spec_vendoredAliases cwd bundleType moduleType,
                  spec_thirdPartyAliases cwd bundleType], w'))"
  by (simp add: getAliases_eq spec_laterWins_four fbjs_aliases_spec node_modules_spec
      internal_modules_spec del: spec_laterWins.simps split: sum.splits)

theorem getAliases_is_merge_witness:
  "getAliases exampleCollaborators ''/repo'' [''src/**/*.js''] FB_DEV RENDERER False 0 =
     Inr (spec_laterWins
            [[''object-assign'' \<mapsto> ''/repo/src/shared/object-assign.js''],
             spec_internalPackageAliases ''/repo'' RENDERER,
             spec_vendoredAliases ''/repo'' FB_DEV RENDERER,
             spec_thirdPartyAliases ''/repo'' FB_DEV], 0)"
  using getAliases_is_merge [of exampleCollaborators "''/repo''" "[''src/**/*.js'']" FB_DEV
      RENDERER False 0]
  by (simp add: example_createModuleMap_FB del: spec_laterWins.simps)

text \<open>
  Claim C5. For \<^verbatim>\<open>UMD_DEV\<close> and \<^verbatim>\<open>UMD_PROD\<close>, the table that \<^verbatim>\<open>getAliases\<close> returns
  maps \<^verbatim>\<open>object-assign\<close> to the path of the real implementation for the isomorphic
  module type and to the path of the shim for a renderer, also when the scan found a
  file of that module name. The two paths differ in every working directory.
\<close>

theorem getAliases_object_assign:
  assumes "getAliases c cwd paths bundleType moduleType extractErrors w = Inr (aliases, w')"
    and "bundleType \<in> {UMD_DEV, UMD_PROD}"
  shows "(moduleType = ISOMORPHIC \<longrightarrow>
            aliases ''object-assign'' =
              Some (resolve cwd ''./node_modules/object-assign/index.js'')) \<and>
         (moduleType = RENDERER \<longrightarrow>
            aliases ''object-assign'' =
              Some (resolve cwd ''./scripts/rollup/shims/rollup/assign.js'')) \<and>
         resolve cwd ''./node_modules/object-assign/index.js'' \<noteq>
           resolve cwd ''./scripts/rollup/shims/rollup/assign.js''"
proof -
  have not_fbjs: "''object-assign'' \<notin> set fbjsModules"
    by (simp add: fbjsModules_def)
  from assms(1) obtain moduleMap where
    "aliases = moduleMap ++ getInternalModules cwd moduleType
                 ++ ownProperties (getNodeModules cwd bundleType moduleType)
                 ++ ownProperties (getFbjsModuleAliases cwd bundleType)"
    by (auto simp: getAliases_eq split: sum.splits)
  with assms(2) not_fbjs have
    "aliases ''object-assign'' =
       Some (if moduleType = ISOMORPHIC
             then resolve cwd ''./node_modules/object-assign/index.js''
             else resolve cwd ''./scripts/rollup/shims/rollup/assign.js'')"
    by (auto simp: map_add_def umdFbjsModulesAlias_apply umdNodeModules_def)
  then show ?thesis
    by (simp add: resolve_object_assign resolve_assign_shim)
qed

theorem getAliases_object_assign_witness:
  "UMD_DEV \<in> {UMD_DEV, UMD_PROD} \<and>
   (case getAliases exampleCollaborators ''/repo'' [''src/**/*.js''] UMD_DEV RENDERER True 0 of
      Inl e \<Rightarrow> False
    | Inr (aliases, w') \<Rightarrow>
        aliases ''object-assign'' = Some ''/repo/scripts/rollup/shims/rollup/assign.js'' \<and>
        w' = 3)"
proof -
  obtain aliases where g:
    "getAliases exampleCollaborators ''/repo'' [''src/**/*.js''] UMD_DEV RENDERER True 0 =
       Inr (aliases, 3)"
    using example_createModuleMap [of UMD_DEV True] by (simp add: getAliases_eq)
  have "aliases ''object-assign'' =
      Some (resolve ''/repo'' ''./scripts/rollup/shims/rollup/assign.js'')"
    using getAliases_object_assign [OF g] by simp
  then show ?thesis
    using g by (simp add: resolve_def)
qed

subsection \<open>A bundle type that is none of the eight\<close>

text \<open>
  Claim C4, amended. For a bundle type outside the eight constants no function raises:
  \<^verbatim>\<open>getExternalModules\<close> returns the caller's list unchanged; \<^verbatim>\<open>getNodeModules\<close>,
  \<^verbatim>\<open>getFbjsModuleAliases\<close>, \<^verbatim>\<open>replaceDevOnlyStubbedModules\<close> and
  \<^verbatim>\<open>replaceLegacyModuleAliases\<close> return \<^verbatim>\<open>undefined\<close>, which the merge skips;
  \<^verbatim>\<open>replaceFbjsModuleAliases\<close> returns the empty object. So
  \<^verbatim>\<open>getDefaultReplaceModules\<close> returns the caller's stubs and the feature-flag entry
  only, and \<^verbatim>\<open>getAliases\<close> the scanned module map with the internal-package aliases
  only, failing only when a collaborator of the scan fails.
\<close>

theorem unknown_bundle_falls_through:
  "getExternalModules externals (UnknownBundle v) moduleType = externals \<and>
   getNodeModules cwd (UnknownBundle v) moduleType = Undefined \<and>
   getFbjsModuleAliases cwd (UnknownBundle v) = Undefined \<and>
   replaceDevOnlyStubbedModules cwd (UnknownBundle v) = Undefined \<and>
   replaceLegacyModuleAliases cwd (UnknownBundle v) = Undefined \<and>
   replaceFbjsModuleAliases (UnknownBundle v) = Map.empty \<and>
   getDefaultReplaceModules cwd (UnknownBundle v) bundleModulesToStub featureFlags =
     replaceBundleStubModules cwd bundleModulesToStub ++ replaceFeatureFlags cwd featureFlags \<and>
   getAliases c cwd paths (UnknownBundle v) moduleType extractErrors w =
     (case forEachPath c cwd
             (if extractErrors then Some (extractErrorCodes c errorMapFilePath) else None)
             paths (Map.empty, w) of
        Inl e \<Rightarrow> Inl e
      | Inr (moduleMap, w') \<Rightarrow> Inr (moduleMap ++ getInternalModules cwd moduleType, w'))"
  by (simp add: getAliases_eq getDefaultReplaceModules_eq createModuleMap_def
      split: sum.splits)

theorem unknown_bundle_falls_through_witness:
  "getExternalModules [''react-dom''] (UnknownBundle ''ESM_DEV'') RENDERER = [''react-dom''] \<and>
   getDefaultReplaceModules ''/repo'' (UnknownBundle ''ESM_DEV'') JUndefined None = Map.empty \<and>
   getAliases exampleCollaborators ''/repo'' [''src/**/*.js''] (UnknownBundle ''ESM_DEV'')
       RENDERER True 0 =
     Inr ([''ReactCurrentOwner'' \<mapsto> ''/repo/src/isomorphic/ReactCurrentOwner.js'',
           ''lowPriorityWarning'' \<mapsto> ''/repo/src/shared/lowPriorityWarning.js'',
           ''object-assign'' \<mapsto> ''/repo/src/shared/object-assign.js'']
            ++ getInternalModules ''/repo'' RENDERER, 3)"
  using unknown_bundle_falls_through
    [where externals = "[''react-dom'']" and v = "''ESM_DEV''" and moduleType = RENDERER
       and cwd = "''/repo''" and bundleModulesToStub = JUndefined and featureFlags = None
       and c = exampleCollaborators and paths = "[''src/**/*.js'']" and extractErrors = True
       and w = 0]
    example_scan [of True]
  by simp

text \<open>
  At the bundle type \<^verbatim>\<open>ESM_DEV\<close> every function returns, with a policy that is empty
  or incomplete, and none reports the unknown bundle type.
\<close>

theorem unknown_bundle_counterexample:
  "getExternalModules [''react-dom''] (UnknownBundle ''ESM_DEV'') RENDERER = [''react-dom''] \<and>
   getNodeModules ''/repo'' (UnknownBundle ''ESM_DEV'') RENDERER = Undefined \<and>
   getFbjsModuleAliases ''/repo'' (UnknownBundle ''ESM_DEV'') = Undefined \<and>
   getDefaultReplaceModules ''/repo'' (UnknownBundle ''ESM_DEV'') JUndefined None = Map.empty \<and>
   getAliases exampleCollaborators ''/repo'' [] (UnknownBundle ''ESM_DEV'') ISOMORPHIC False 0 =
     Inr ([''reactProdInvariant'' \<mapsto> ''/repo/packages/shared/reactProdInvariant.js''], 0)"
  by (simp add: getAliases_eq getDefaultReplaceModules_eq createModuleMap_def
      getInternalModules_def resolve_def)

end
